theory Spec2Isabelle
  imports Main
begin

section \<open>Vulkan index buffer (Runtime/RHI/Vulkan/Vulkan\_IndexBuffer.cpp)\<close>

text \<open>
  A shallow embedding of \<^verbatim>\<open>RHI_IndexBuffer::_destroy\<close>, \<^verbatim>\<open>_create\<close>,
  \<^verbatim>\<open>Map\<close> and \<^verbatim>\<open>Unmap\<close>. The object is a record of its member variables, the
  device context is a record that is passed in and returned updated, and every call into
  the device is written to a trace, so that the order of the calls can be stated.
  A failed \<^verbatim>\<open>SP_ASSERT\<close> and a call through a null \<^verbatim>\<open>m_rhi_device\<close> are
  error values.
\<close>

subsection \<open>Handles, flags and device calls\<close>

text \<open>Pointers and opaque handles (\<^verbatim>\<open>void*\<close>, \<^verbatim>\<open>VkBuffer\<close>,
  \<^verbatim>\<open>VmaAllocation\<close>) are numbers; zero is the null pointer.\<close>

type_synonym ptr = nat

definition nullptr :: ptr where
  "nullptr = 0"

text \<open>The flag bits the source names. A flag word is the set of its bits, and
  \<^verbatim>\<open>|\<close> is union.\<close>

datatype VkBufferUsageFlagBits =
    VK_BUFFER_USAGE_TRANSFER_SRC_BIT
  | VK_BUFFER_USAGE_TRANSFER_DST_BIT
  | VK_BUFFER_USAGE_INDEX_BUFFER_BIT

datatype VkMemoryPropertyFlagBits =
    VK_MEMORY_PROPERTY_DEVICE_LOCAL_BIT
  | VK_MEMORY_PROPERTY_HOST_VISIBLE_BIT
  | VK_MEMORY_PROPERTY_HOST_COHERENT_BIT

text \<open>The one queue the source names.\<close>

datatype RHI_Queue_Type = Copy

text \<open>One constructor for each call into the device, with its arguments and its
  result.\<close>

datatype event =
    QUEUE_WAIT_ALL
  | BUFFER_CREATE ptr ptr nat "VkBufferUsageFlagBits set" "VkMemoryPropertyFlagBits set" ptr
  | BUFFER_CREATE_FAILED nat "VkBufferUsageFlagBits set" "VkMemoryPropertyFlagBits set" ptr
  | BUFFER_DESTROY ptr
  | MAP_MEMORY ptr ptr
  | MAP_MEMORY_FAILED ptr
  | UNMAP_MEMORY ptr
  | FLUSH_ALLOCATION ptr nat nat bool
  | CMD_BEGIN RHI_Queue_Type ptr
  | CMD_COPY_BUFFER ptr ptr ptr nat
  | CMD_END RHI_Queue_Type
  | SET_NAME ptr string

text \<open>The ways a call can stop without returning. \<^verbatim>\<open>SP_ASSERT\<close> is a macro
  defined outside this file; it is taken to stop the program when its condition is
  false.\<close>

datatype error = AssertionFailed | NullDereference

subsection \<open>The device context\<close>

text \<open>
  What \<^verbatim>\<open>m_rhi_device->GetContextRhi()\<close> stands for, as a test double:
  \<^item> \<open>device\<close>: the \<^verbatim>\<open>VkDevice\<close> handle the assertions read;
  \<^item> \<open>allocations\<close>: the live buffers, each with its allocation;
  \<^item> \<open>next_handle\<close>: the source of fresh handles and host addresses;
  \<^item> \<open>create_script\<close>, \<open>map_script\<close>, \<open>flush_script\<close>: the outcomes the driver
    will give to the coming create, map and flush calls, in order (\<open>True\<close> is
    \<^verbatim>\<open>VK_SUCCESS\<close>; a script that has run out fails);
  \<^item> \<open>trace\<close>: the calls made so far, oldest first;
  \<^item> \<open>error_log\<close>: the messages of \<^verbatim>\<open>LOG_ERROR\<close>, oldest first.
\<close>

record RHI_Context =
  device :: ptr
  allocations :: "ptr \<rightharpoonup> ptr"
  next_handle :: nat
  create_script :: "bool list"
  map_script :: "bool list"
  flush_script :: "bool list"
  trace :: "event list"
  error_log :: "string list"

definition LOG_ERROR :: "string \<Rightarrow> RHI_Context \<Rightarrow> RHI_Context" where
  "LOG_ERROR msg c = c\<lparr>error_log := error_log c @ [msg]\<rparr>"

text \<open>Modelled from the spec: \<^verbatim>\<open>RHI_Device::QueueWaitAll\<close> is declared outside
  this file; section 6 gives \<^verbatim>\<open>waitAllDeviceWork()\<close>, a blocking barrier over
  every queue.\<close>

definition QueueWaitAll :: "RHI_Context \<Rightarrow> RHI_Context" where
  "QueueWaitAll c = c\<lparr>trace := trace c @ [QUEUE_WAIT_ALL]\<rparr>"

text \<open>Modelled from the spec: \<^verbatim>\<open>vulkan_utility::buffer::create\<close> is declared outside
  this file; section 6 gives \<^verbatim>\<open>createBuffer(sizeBytes, usageFlags,
  memoryPropertyFlags, optionalInitialData) -> (bufferHandle, allocationHandle) |
  failure\<close>. The first argument is the caller's buffer variable, which the call
  overwrites on success and leaves alone on failure; the allocation returned is null on
  failure.\<close>

definition buffer_create ::
  "ptr \<Rightarrow> nat \<Rightarrow> VkBufferUsageFlagBits set \<Rightarrow> VkMemoryPropertyFlagBits set \<Rightarrow> ptr
    \<Rightarrow> RHI_Context \<Rightarrow> (ptr \<times> ptr) \<times> RHI_Context" where
  "buffer_create buffer size_bytes usage flags data c =
     (case create_script c of
        True # rest \<Rightarrow>
          (let b = Suc (next_handle c); a = Suc (Suc (next_handle c))
           in ((b, a),
               c\<lparr>allocations := (allocations c)(b \<mapsto> a),
                 next_handle := Suc (Suc (next_handle c)),
                 create_script := rest,
                 trace := trace c @ [BUFFER_CREATE b a size_bytes usage flags data]\<rparr>))
      | _ \<Rightarrow>
          ((buffer, nullptr),
           c\<lparr>create_script := tl (create_script c),
             trace := trace c @ [BUFFER_CREATE_FAILED size_bytes usage flags data]\<rparr>))"

text \<open>Modelled from the spec: \<^verbatim>\<open>vulkan_utility::buffer::destroy\<close> is declared
  outside this file; section 6 gives \<^verbatim>\<open>destroyBuffer(bufferHandle,
  allocationHandle)\<close>, and sections 3 and 9 say that the handle is null once destroyed
  (the local copy is set to the null sentinel). A null handle is left alone. The result
  is the new value of the caller's buffer variable.\<close>

definition buffer_destroy :: "ptr \<Rightarrow> RHI_Context \<Rightarrow> ptr \<times> RHI_Context" where
  "buffer_destroy buffer c =
     (if buffer = nullptr then (buffer, c)
      else (nullptr,
            c\<lparr>allocations := (allocations c)(buffer := None),
              trace := trace c @ [BUFFER_DESTROY buffer]\<rparr>))"

text \<open>Modelled from the spec: \<^verbatim>\<open>vmaMapMemory\<close> belongs to the allocator library;
  section 6 gives \<^verbatim>\<open>mapMemory(allocationHandle) -> hostPointer | failure\<close>. The
  second argument is the caller's pointer variable, written on success only. The result
  is the success flag (what \<^verbatim>\<open>vulkan_utility::error::check\<close> makes of the
  \<^verbatim>\<open>VkResult\<close>) and the new value of the pointer variable.\<close>

definition vmaMapMemory :: "ptr \<Rightarrow> ptr \<Rightarrow> RHI_Context \<Rightarrow> (bool \<times> ptr) \<times> RHI_Context" where
  "vmaMapMemory allocation mapped c =
     (case map_script c of
        True # rest \<Rightarrow>
          (let p = Suc (next_handle c)
           in ((True, p),
               c\<lparr>next_handle := Suc (next_handle c),
                 map_script := rest,
                 trace := trace c @ [MAP_MEMORY allocation p]\<rparr>))
      | _ \<Rightarrow>
          ((False, mapped),
           c\<lparr>map_script := tl (map_script c),
             trace := trace c @ [MAP_MEMORY_FAILED allocation]\<rparr>))"

text \<open>Modelled from the spec: \<^verbatim>\<open>vmaUnmapMemory\<close>, section 6
  \<^verbatim>\<open>unmapMemory(allocationHandle)\<close>.\<close>

definition vmaUnmapMemory :: "ptr \<Rightarrow> RHI_Context \<Rightarrow> RHI_Context" where
  "vmaUnmapMemory allocation c = c\<lparr>trace := trace c @ [UNMAP_MEMORY allocation]\<rparr>"

text \<open>Modelled from the spec: \<^verbatim>\<open>vmaFlushAllocation\<close>, section 6
  \<^verbatim>\<open>flushMappedRange(allocationHandle, offset, size) -> success | failure\<close>. The
  result is the success flag, as \<^verbatim>\<open>vulkan_utility::error::check\<close> reads it.\<close>

definition vmaFlushAllocation :: "ptr \<Rightarrow> nat \<Rightarrow> nat \<Rightarrow> RHI_Context \<Rightarrow> bool \<times> RHI_Context" where
  "vmaFlushAllocation allocation offset size_bytes c =
     (let ok = (case flush_script c of r # _ \<Rightarrow> r | [] \<Rightarrow> False)
      in (ok,
          c\<lparr>flush_script := tl (flush_script c),
            trace := trace c @ [FLUSH_ALLOCATION allocation offset size_bytes ok]\<rparr>))"

text \<open>Modelled from the spec: the immediate command buffer of
  \<^verbatim>\<open>vulkan_utility::command_buffer_immediate\<close>, section 6
  \<^verbatim>\<open>beginImmediateCommandRecording(queueKind) -> recordingHandle\<close>,
  \<^verbatim>\<open>recordBufferCopy(recordingHandle, srcBuffer, dstBuffer, size)\<close> and
  \<^verbatim>\<open>endImmediateCommandRecording(queueKind)\<close>, which submits and blocks until
  complete. None of the three reports a failure.\<close>

definition command_buffer_immediate_begin :: "RHI_Queue_Type \<Rightarrow> RHI_Context \<Rightarrow> ptr \<times> RHI_Context" where
  "command_buffer_immediate_begin queue_type c =
     (let cmd = Suc (next_handle c)
      in (cmd, c\<lparr>next_handle := Suc (next_handle c),
                 trace := trace c @ [CMD_BEGIN queue_type cmd]\<rparr>))"

definition vkCmdCopyBuffer :: "ptr \<Rightarrow> ptr \<Rightarrow> ptr \<Rightarrow> nat \<Rightarrow> RHI_Context \<Rightarrow> RHI_Context" where
  "vkCmdCopyBuffer cmd_buffer src dst size_bytes c =
     c\<lparr>trace := trace c @ [CMD_COPY_BUFFER cmd_buffer src dst size_bytes]\<rparr>"

definition command_buffer_immediate_end :: "RHI_Queue_Type \<Rightarrow> RHI_Context \<Rightarrow> RHI_Context" where
  "command_buffer_immediate_end queue_type c = c\<lparr>trace := trace c @ [CMD_END queue_type]\<rparr>"

text \<open>Modelled from the spec: \<^verbatim>\<open>vulkan_utility::debug::set_name\<close>, section 6
  \<^verbatim>\<open>setDebugName(bufferHandle, name)\<close>.\<close>

definition set_name :: "ptr \<Rightarrow> string \<Rightarrow> RHI_Context \<Rightarrow> RHI_Context" where
  "set_name buffer name c = c\<lparr>trace := trace c @ [SET_NAME buffer name]\<rparr>"

subsection \<open>The index buffer\<close>

text \<open>The member variables the four functions read and write. \<open>m_rhi_device\<close> is
  null or points to the device whose context is passed along.\<close>

record RHI_IndexBuffer =
  m_rhi_device :: ptr
  m_resource :: ptr
  m_allocation :: ptr
  m_mapped :: ptr
  m_is_mappable :: bool
  m_persistent_mapping :: bool
  m_object_size_gpu :: nat
  m_object_name :: string

text \<open>\<^verbatim>\<open>void RHI_IndexBuffer::_destroy()\<close>. The call through
  \<^verbatim>\<open>m_rhi_device\<close> is not guarded; through a null pointer it is the error
  \<open>NullDereference\<close>.\<close>

definition IndexBuffer_destroy ::
  "RHI_IndexBuffer \<Rightarrow> RHI_Context \<Rightarrow> error + (RHI_IndexBuffer \<times> RHI_Context)" where
  "IndexBuffer_destroy s c =
     (if m_rhi_device s = nullptr then Inl NullDereference
      else
        let c1 = QueueWaitAll c;
            (s2, c2) = (if m_mapped s \<noteq> nullptr
                        then (s\<lparr>m_mapped := nullptr\<rparr>, vmaUnmapMemory (m_allocation s) c1)
                        else (s, c1));
            (resource, c3) = buffer_destroy (m_resource s2) c2
        in Inr (s2\<lparr>m_resource := resource\<rparr>, c3))"

text \<open>\<^verbatim>\<open>bool RHI_IndexBuffer::_create(const void* indices)\<close>. Each branch of the
  source either returns false or falls through to the debug name and
  \<^verbatim>\<open>return true\<close>; here a branch gives the flag \<open>go_on\<close>, false for the early
  return. The result is the value returned, the object and the context.\<close>

definition IndexBuffer_create ::
  "ptr \<Rightarrow> RHI_IndexBuffer \<Rightarrow> RHI_Context \<Rightarrow> error + (bool \<times> RHI_IndexBuffer \<times> RHI_Context)" where
  "IndexBuffer_create indices s c =
     (if m_rhi_device s = nullptr then Inl AssertionFailed
      else if device c = nullptr then Inl AssertionFailed
      else
        case IndexBuffer_destroy s c of
          Inl e \<Rightarrow> Inl e
        | Inr (s1, c1) \<Rightarrow>
            let s2 = s1\<lparr>m_is_mappable := (indices = nullptr)\<rparr>;
                (go_on, s3, c3) =
                  (if m_is_mappable s2 then
                     let flags = {VK_MEMORY_PROPERTY_HOST_VISIBLE_BIT} \<union>
                                 (if \<not> m_persistent_mapping s2
                                  then {VK_MEMORY_PROPERTY_HOST_COHERENT_BIT} else {});
                         ((resource, allocation), c2) =
                           buffer_create (m_resource s2) (m_object_size_gpu s2)
                             {VK_BUFFER_USAGE_INDEX_BUFFER_BIT} flags nullptr c1;
                         sa = s2\<lparr>m_resource := resource\<rparr>
                     in if allocation = nullptr then (False, sa, c2)
                        else (True, sa\<lparr>m_allocation := allocation\<rparr>, c2)
                   else
                     let staging_buffer = nullptr;
                         ((staging_buffer, allocation_staging), c2) =
                           buffer_create staging_buffer (m_object_size_gpu s2)
                             {VK_BUFFER_USAGE_TRANSFER_SRC_BIT}
                             {VK_MEMORY_PROPERTY_HOST_VISIBLE_BIT, VK_MEMORY_PROPERTY_HOST_COHERENT_BIT}
                             indices c1
                     in if allocation_staging = nullptr then (False, s2, c2)
                        else
                          let ((resource, allocation), c4) =
                                buffer_create (m_resource s2) (m_object_size_gpu s2)
                                  {VK_BUFFER_USAGE_TRANSFER_DST_BIT, VK_BUFFER_USAGE_INDEX_BUFFER_BIT}
                                  {VK_MEMORY_PROPERTY_DEVICE_LOCAL_BIT} nullptr c2;
                              sa = s2\<lparr>m_resource := resource\<rparr>
                          in if allocation = nullptr then (False, sa, c4)
                             else
                               let (cmd_buffer, c5) = command_buffer_immediate_begin Copy c4;
                                   c6 = vkCmdCopyBuffer cmd_buffer staging_buffer (m_resource sa)
                                          (m_object_size_gpu sa) c5;
                                   c7 = command_buffer_immediate_end Copy c6;
                                   (staging_buffer, c8) = buffer_destroy staging_buffer c7
                               in (True, sa\<lparr>m_allocation := allocation\<rparr>, c8))
            in if \<not> go_on then Inr (False, s3, c3)
               else Inr (True, s3, set_name (m_resource s3) (m_object_name s3) c3))"

text \<open>\<^verbatim>\<open>void* RHI_IndexBuffer::Map()\<close>. The result is the pointer returned, the
  object and the context.\<close>

definition IndexBuffer_Map ::
  "RHI_IndexBuffer \<Rightarrow> RHI_Context \<Rightarrow> error + (ptr \<times> RHI_IndexBuffer \<times> RHI_Context)" where
  "IndexBuffer_Map s c =
     (if \<not> m_is_mappable s
      then Inr (nullptr, s, LOG_ERROR ''Not mappable, can only be updated via staging'' c)
      else if m_rhi_device s = nullptr then Inl AssertionFailed
      else if device c = nullptr then Inl AssertionFailed
      else if m_allocation s = nullptr then Inl AssertionFailed
      else if m_mapped s = nullptr then
        (let ((ok, mapped), c1) = vmaMapMemory (m_allocation s) (m_mapped s) c;
             s1 = s\<lparr>m_mapped := mapped\<rparr>
         in if \<not> ok then Inr (nullptr, s1, LOG_ERROR ''Failed to map memory'' c1)
            else Inr (m_mapped s1, s1, c1))
      else Inr (m_mapped s, s, c))"

text \<open>\<^verbatim>\<open>bool RHI_IndexBuffer::Unmap()\<close>. The two calls through
  \<^verbatim>\<open>m_rhi_device\<close> are not guarded.\<close>

definition IndexBuffer_Unmap ::
  "RHI_IndexBuffer \<Rightarrow> RHI_Context \<Rightarrow> error + (bool \<times> RHI_IndexBuffer \<times> RHI_Context)" where
  "IndexBuffer_Unmap s c =
     (if \<not> m_is_mappable s
      then Inr (False, s, LOG_ERROR ''Not mappable, can only be updated via staging'' c)
      else if m_allocation s = nullptr
      then Inr (False, s, LOG_ERROR ''Invalid allocation'' c)
      else if m_persistent_mapping s then
        (if m_rhi_device s = nullptr then Inl NullDereference
         else
           let (ok, c1) = vmaFlushAllocation (m_allocation s) 0 (m_object_size_gpu s) c
           in if \<not> ok then Inr (False, s, LOG_ERROR ''Failed to flush memory'' c1)
              else Inr (True, s, c1))
      else if m_mapped s \<noteq> nullptr then
        (if m_rhi_device s = nullptr then Inl NullDereference
         else Inr (True, s\<lparr>m_mapped := nullptr\<rparr>, vmaUnmapMemory (m_allocation s) c))
      else Inr (True, s, c))"

subsection \<open>Sequences of calls\<close>




subsection \<open>Concrete objects and contexts\<close>

text \<open>A freshly constructed object of 1024 bytes on a device, and a context whose driver
  lets the next two creations, the next mapping and the next flush succeed.\<close>

definition fresh_buffer :: RHI_IndexBuffer where
  "fresh_buffer =
     \<lparr>m_rhi_device = 7, m_resource = nullptr, m_allocation = nullptr, m_mapped = nullptr,
      m_is_mappable = False, m_persistent_mapping = False, m_object_size_gpu = 1024,
      m_object_name = ''index_buffer''\<rparr>"

definition fresh_context :: RHI_Context where
  "fresh_context =
     \<lparr>device = 9, allocations = Map.empty, next_handle = 100,
      create_script = [True, True], map_script = [True], flush_script = [True],
      trace = [], error_log = []\<rparr>"

text \<open>The same object after a successful \<^verbatim>\<open>_create(nullptr)\<close> and a successful
  \<^verbatim>\<open>Map\<close>: buffer 101 with allocation 102, mapped at 103.\<close>

definition mapped_buffer :: RHI_IndexBuffer where
  "mapped_buffer =
     \<lparr>m_rhi_device = 7, m_resource = 101, m_allocation = 102, m_mapped = 103,
      m_is_mappable = True, m_persistent_mapping = False, m_object_size_gpu = 1024,
      m_object_name = ''index_buffer''\<rparr>"

text \<open>The object after a successful \<^verbatim>\<open>_create(nullptr)\<close>, not mapped; the mapped
  object with persistent mapping; and the object after a successful staged
  \<^verbatim>\<open>_create\<close>, which is not mappable.\<close>

definition ready_buffer :: RHI_IndexBuffer where
  "ready_buffer =
     \<lparr>m_rhi_device = 7, m_resource = 101, m_allocation = 102, m_mapped = nullptr,
      m_is_mappable = True, m_persistent_mapping = False, m_object_size_gpu = 1024,
      m_object_name = ''index_buffer''\<rparr>"

definition persistent_buffer :: RHI_IndexBuffer where
  "persistent_buffer =
     \<lparr>m_rhi_device = 7, m_resource = 101, m_allocation = 102, m_mapped = 103,
      m_is_mappable = True, m_persistent_mapping = True, m_object_size_gpu = 1024,
      m_object_name = ''index_buffer''\<rparr>"

definition staged_buffer :: RHI_IndexBuffer where
  "staged_buffer =
     \<lparr>m_rhi_device = 7, m_resource = 101, m_allocation = 102, m_mapped = nullptr,
      m_is_mappable = False, m_persistent_mapping = False, m_object_size_gpu = 2048,
      m_object_name = ''index_buffer''\<rparr>"

text \<open>A context in which that buffer is live, with a driver that lets everything succeed,
  and the same context with a driver that refuses the second creation, the first mapping
  and the first flush.\<close>

definition live_context :: RHI_Context where
  "live_context =
     \<lparr>device = 9, allocations = [101 \<mapsto> 102], next_handle = 103,
      create_script = [True, True], map_script = [True], flush_script = [True],
      trace = [], error_log = []\<rparr>"

definition failing_context :: RHI_Context where
  "failing_context =
     \<lparr>device = 9, allocations = [101 \<mapsto> 102], next_handle = 103,
      create_script = [True, False], map_script = [False, True], flush_script = [False],
      trace = [], error_log = []\<rparr>"

text \<open>The failing context after a \<^verbatim>\<open>Map\<close> of the ready object whose mapping was
  refused, and after a second \<^verbatim>\<open>Map\<close> whose mapping was granted at address 104.\<close>

definition after_failed_map :: RHI_Context where
  "after_failed_map =
     \<lparr>device = 9, allocations = [101 \<mapsto> 102], next_handle = 103,
      create_script = [True, False], map_script = [True], flush_script = [False],
      trace = [MAP_MEMORY_FAILED 102], error_log = [''Failed to map memory'']\<rparr>"

definition after_retried_map :: RHI_Context where
  "after_retried_map =
     \<lparr>device = 9, allocations = [101 \<mapsto> 102], next_handle = 104,
      create_script = [True, False], map_script = [], flush_script = [False],
      trace = [MAP_MEMORY_FAILED 102, MAP_MEMORY 102 104],
      error_log = [''Failed to map memory'']\<rparr>"

text \<open>The failing context after a staged \<^verbatim>\<open>_create\<close> of the fresh object whose
  staging buffer (104, with allocation 105) was granted and whose destination buffer was
  refused.\<close>

definition after_failed_staged_create :: RHI_Context where
  "after_failed_staged_create =
     \<lparr>device = 9, allocations = [101 \<mapsto> 102, 104 \<mapsto> 105], next_handle = 105,
      create_script = [], map_script = [False, True], flush_script = [False],
      trace = [QUEUE_WAIT_ALL,
               BUFFER_CREATE 104 105 1024 {VK_BUFFER_USAGE_TRANSFER_SRC_BIT}
                 {VK_MEMORY_PROPERTY_HOST_VISIBLE_BIT, VK_MEMORY_PROPERTY_HOST_COHERENT_BIT} 55,
               BUFFER_CREATE_FAILED 1024
                 {VK_BUFFER_USAGE_TRANSFER_DST_BIT, VK_BUFFER_USAGE_INDEX_BUFFER_BIT}
                 {VK_MEMORY_PROPERTY_DEVICE_LOCAL_BIT} nullptr],
      error_log = []\<rparr>"











section \<open>Properties\<close>

subsection \<open>Auxiliary facts\<close>

lemma buffer_create_if:
  "buffer_create buffer n u f d c =
     (if create_script c \<noteq> [] \<and> hd (create_script c)
      then ((Suc (next_handle c), Suc (Suc (next_handle c))),
            c\<lparr>allocations := (allocations c)(Suc (next_handle c) \<mapsto> Suc (Suc (next_handle c))),
              next_handle := Suc (Suc (next_handle c)),
              create_script := tl (create_script c),
              trace := trace c @
                [BUFFER_CREATE (Suc (next_handle c)) (Suc (Suc (next_handle c))) n u f d]\<rparr>)
      else ((buffer, nullptr),
            c\<lparr>create_script := tl (create_script c),
              trace := trace c @ [BUFFER_CREATE_FAILED n u f d]\<rparr>))"
  by (simp add: buffer_create_def Let_def split: list.splits bool.splits)

lemma vmaMapMemory_if:
  "vmaMapMemory allocation mapped c =
     (if map_script c \<noteq> [] \<and> hd (map_script c)
      then ((True, Suc (next_handle c)),
            c\<lparr>next_handle := Suc (next_handle c),
              map_script := tl (map_script c),
              trace := trace c @ [MAP_MEMORY allocation (Suc (next_handle c))]\<rparr>)
      else ((False, mapped),
            c\<lparr>map_script := tl (map_script c),
              trace := trace c @ [MAP_MEMORY_FAILED allocation]\<rparr>))"
  by (simp add: vmaMapMemory_def Let_def split: list.splits bool.splits)

lemmas create_prims = buffer_create_if buffer_destroy_def command_buffer_immediate_begin_def
  vkCmdCopyBuffer_def command_buffer_immediate_end_def set_name_def

lemmas destroy_prims = QueueWaitAll_def vmaUnmapMemory_def buffer_destroy_def

lemmas example_defs = fresh_buffer_def fresh_context_def live_context_def mapped_buffer_def
  nullptr_def




lemma destroy_returns:
  "m_rhi_device s \<noteq> nullptr \<Longrightarrow> \<exists>s1 c1. IndexBuffer_destroy s c = Inr (s1, c1)"
  by (simp add: IndexBuffer_destroy_def Let_def split: prod.splits)

lemma destroy_fields:
  assumes "IndexBuffer_destroy s c = Inr (s1, c1)"
  shows "s1 = s\<lparr>m_mapped := nullptr, m_resource := nullptr\<rparr>"
    and "device c1 = device c"
    and "create_script c1 = create_script c"
    and "error_log c1 = error_log c"
  using assms
  by (auto simp: IndexBuffer_destroy_def destroy_prims Let_def split: if_splits)

lemma create_destroys_first:
  assumes "IndexBuffer_create indices s c = Inr (ok, s', c')"
  obtains s1 c1 where "IndexBuffer_destroy s c = Inr (s1, c1)"
    and "m_rhi_device s \<noteq> nullptr" and "device c \<noteq> nullptr"
  using assms
  by (cases "IndexBuffer_destroy s c") (auto simp: IndexBuffer_create_def split: if_splits)

lemma create_returns:
  assumes "m_rhi_device s \<noteq> nullptr" and "device c \<noteq> nullptr"
  shows "\<exists>ok s' c'. IndexBuffer_create indices s c = Inr (ok, s', c')"
proof -
  from assms(1) obtain s1 c1 where "IndexBuffer_destroy s c = Inr (s1, c1)"
    using destroy_returns by blast
  with assms show ?thesis
    by (simp add: IndexBuffer_create_def Let_def split: prod.splits)
qed

lemma create_extends_trace:
  assumes "IndexBuffer_create indices s c = Inr (ok, s', c')"
    and "IndexBuffer_destroy s c = Inr (s1, c1)"
  shows "\<exists>es. trace c' = trace c1 @ es"
proof -
  from assms(1) have "m_rhi_device s \<noteq> nullptr" and "device c \<noteq> nullptr"
    by (auto elim: create_destroys_first)
  with assms show ?thesis
    by (auto simp: IndexBuffer_create_def create_prims Let_def split: if_splits)
qed

subsection \<open>Destruction\<close>

text \<open>
  Claim C3. Every execution of \<^verbatim>\<open>_destroy\<close> either stops at the call through a null
  \<^verbatim>\<open>m_rhi_device\<close>, before anything is released, or makes exactly these device
  calls, in this order: the blocking wait for all queues first; then the release of the
  mapping, if one is active; then the destruction of the buffer and its allocation, if
  there is a buffer. So the wait comes strictly before every release, and nothing is
  submitted to the device between the wait and the releases.
\<close>

theorem destroy_waits_before_release:
  "(m_rhi_device s = nullptr \<and> IndexBuffer_destroy s c = Inl NullDereference) \<or>
   (\<exists>s' c'. IndexBuffer_destroy s c = Inr (s', c') \<and>
      trace c' = trace c @ QUEUE_WAIT_ALL #
        ((if m_mapped s \<noteq> nullptr then [UNMAP_MEMORY (m_allocation s)] else []) @
         (if m_resource s \<noteq> nullptr then [BUFFER_DESTROY (m_resource s)] else [])))"
  by (simp add: IndexBuffer_destroy_def destroy_prims)

theorem destroy_waits_before_release_witness:
  "\<exists>s' c'. IndexBuffer_destroy mapped_buffer live_context = Inr (s', c') \<and>
     trace c' = [QUEUE_WAIT_ALL, UNMAP_MEMORY 102, BUFFER_DESTROY 101]"
  using destroy_waits_before_release [of mapped_buffer live_context]
  by (simp add: example_defs)

text \<open>
  Claim C4. For an object attached to a device: \<^verbatim>\<open>_destroy\<close> on an object that holds
  no buffer and no mapping (one that was never created) returns normally, leaves the
  object as it is and releases nothing, its only device call being the wait; after any
  \<^verbatim>\<open>_destroy\<close> a second one returns normally in the same way; and every
  \<^verbatim>\<open>_create\<close> that gets past its assertions has run \<^verbatim>\<open>_destroy\<close> on the
  object first, the device calls of that \<^verbatim>\<open>_destroy\<close> coming before every other
  device call of the \<^verbatim>\<open>_create\<close>.
\<close>

theorem destroy_idempotent:
  "(m_rhi_device s \<noteq> nullptr \<and> m_resource s = nullptr \<and> m_mapped s = nullptr \<longrightarrow>
      IndexBuffer_destroy s c = Inr (s, QueueWaitAll c)) \<and>
   (m_rhi_device s \<noteq> nullptr \<longrightarrow>
      (\<exists>s1 c1. IndexBuffer_destroy s c = Inr (s1, c1) \<and>
         IndexBuffer_destroy s1 c1 = Inr (s1, QueueWaitAll c1))) \<and>
   (IndexBuffer_create indices s c = Inr (ok, s', c') \<longrightarrow>
      (\<exists>s1 c1 es. IndexBuffer_destroy s c = Inr (s1, c1) \<and> trace c' = trace c1 @ es))"
proof (intro conjI impI)
  assume "m_rhi_device s \<noteq> nullptr \<and> m_resource s = nullptr \<and> m_mapped s = nullptr"
  then show "IndexBuffer_destroy s c = Inr (s, QueueWaitAll c)"
    by (simp add: IndexBuffer_destroy_def buffer_destroy_def)
next
  assume dev: "m_rhi_device s \<noteq> nullptr"
  then obtain s1 c1 where d: "IndexBuffer_destroy s c = Inr (s1, c1)"
    using destroy_returns by blast
  from destroy_fields(1) [OF d] dev
  have "IndexBuffer_destroy s1 c1 = Inr (s1, QueueWaitAll c1)"
    by (simp add: IndexBuffer_destroy_def buffer_destroy_def)
  with d show "\<exists>s1 c1. IndexBuffer_destroy s c = Inr (s1, c1) \<and>
               IndexBuffer_destroy s1 c1 = Inr (s1, QueueWaitAll c1)"
    by blast
next
  assume cr: "IndexBuffer_create indices s c = Inr (ok, s', c')"
  then obtain s1 c1 where d: "IndexBuffer_destroy s c = Inr (s1, c1)"
    by (rule create_destroys_first)
  from create_extends_trace [OF cr d] d
  show "\<exists>s1 c1 es. IndexBuffer_destroy s c = Inr (s1, c1) \<and> trace c' = trace c1 @ es"
    by blast
qed

theorem destroy_idempotent_witness:
  "IndexBuffer_destroy fresh_buffer fresh_context = Inr (fresh_buffer, QueueWaitAll fresh_context) \<and>
   (\<exists>s1 c1. IndexBuffer_destroy mapped_buffer live_context = Inr (s1, c1) \<and>
      IndexBuffer_destroy s1 c1 = Inr (s1, QueueWaitAll c1)) \<and>
   (\<exists>ok s' c'. IndexBuffer_create nullptr mapped_buffer live_context = Inr (ok, s', c') \<and>
      (\<exists>s1 c1 es. IndexBuffer_destroy mapped_buffer live_context = Inr (s1, c1) \<and>
         trace c' = trace c1 @ es))"
proof -
  have a: "m_rhi_device fresh_buffer \<noteq> nullptr \<and> m_resource fresh_buffer = nullptr \<and>
           m_mapped fresh_buffer = nullptr"
    by (simp add: example_defs)
  have b: "m_rhi_device mapped_buffer \<noteq> nullptr" "device live_context \<noteq> nullptr"
    by (simp_all add: example_defs)
  from create_returns [OF b, of nullptr] obtain ok s' c'
    where cr: "IndexBuffer_create nullptr mapped_buffer live_context = Inr (ok, s', c')"
    by blast
  from a b cr
    destroy_idempotent [of fresh_buffer fresh_context nullptr ok s' c']
    destroy_idempotent [of mapped_buffer live_context nullptr ok s' c']
  show ?thesis by blast
qed

subsection \<open>Mappability\<close>

lemma destroy_is_mappable:
  "IndexBuffer_destroy s c = Inr (s', c') \<Longrightarrow> m_is_mappable s' = m_is_mappable s"
  using destroy_fields(1) [of s c s' c'] by simp

lemma Map_is_mappable:
  "IndexBuffer_Map s c = Inr (p, s', c') \<Longrightarrow> m_is_mappable s' = m_is_mappable s"
  by (auto simp: IndexBuffer_Map_def vmaMapMemory_if Let_def split: if_splits)

lemma Unmap_is_mappable:
  "IndexBuffer_Unmap s c = Inr (r, s', c') \<Longrightarrow> m_is_mappable s' = m_is_mappable s"
  by (auto simp: IndexBuffer_Unmap_def vmaFlushAllocation_def Let_def split: if_splits)

lemma create_is_mappable:
  assumes "IndexBuffer_create indices s c = Inr (ok, s', c')"
  shows "m_is_mappable s' = (indices = nullptr)"
proof -
  from assms obtain s1 c1 where "IndexBuffer_destroy s c = Inr (s1, c1)"
    and "m_rhi_device s \<noteq> nullptr" and "device c \<noteq> nullptr"
    by (rule create_destroys_first)
  with assms show ?thesis
    by (auto simp: IndexBuffer_create_def create_prims Let_def split: if_splits)
qed

text \<open>
  Claim C5. Whatever the size of the object (so for every size above zero), a
  \<^verbatim>\<open>_create\<close> on an attached object and an initialised device returns, and when it
  returns \<^verbatim>\<open>m_is_mappable\<close> is true if the source data pointer was null and false if
  it was not. The flag is written by \<^verbatim>\<open>_create\<close> only: \<^verbatim>\<open>Map\<close>,
  \<^verbatim>\<open>Unmap\<close> and \<^verbatim>\<open>_destroy\<close> leave it as it is.
\<close>

theorem create_decides_mappable:
  "(m_rhi_device s \<noteq> nullptr \<and> device c \<noteq> nullptr \<longrightarrow>
      (\<exists>ok s' c'. IndexBuffer_create indices s c = Inr (ok, s', c'))) \<and>
   (IndexBuffer_create indices s c = Inr (ok, s', c') \<longrightarrow>
      m_is_mappable s' = (indices = nullptr)) \<and>
   (IndexBuffer_Map s c = Inr (p, s', c') \<longrightarrow> m_is_mappable s' = m_is_mappable s) \<and>
   (IndexBuffer_Unmap s c = Inr (ok, s', c') \<longrightarrow> m_is_mappable s' = m_is_mappable s) \<and>
   (IndexBuffer_destroy s c = Inr (s', c') \<longrightarrow> m_is_mappable s' = m_is_mappable s)"
  using create_returns [of s c indices] create_is_mappable [of indices s c ok s' c']
    Map_is_mappable [of s c p s' c'] Unmap_is_mappable [of s c ok s' c']
    destroy_is_mappable [of s c s' c']
  by blast

theorem create_decides_mappable_witness:
  "(\<exists>ok s' c'. IndexBuffer_create nullptr fresh_buffer fresh_context = Inr (ok, s', c') \<and>
      m_is_mappable s') \<and>
   (\<exists>ok s' c'. IndexBuffer_create 55 fresh_buffer fresh_context = Inr (ok, s', c') \<and>
      \<not> m_is_mappable s') \<and>
   (\<exists>p s' c'. IndexBuffer_Map ready_buffer live_context = Inr (p, s', c') \<and> m_is_mappable s') \<and>
   (\<exists>ok s' c'. IndexBuffer_Unmap mapped_buffer live_context = Inr (ok, s', c') \<and>
      m_is_mappable s') \<and>
   (\<exists>s' c'. IndexBuffer_destroy mapped_buffer live_context = Inr (s', c') \<and> m_is_mappable s')"
proof -
  have dev: "m_rhi_device fresh_buffer \<noteq> nullptr \<and> device fresh_context \<noteq> nullptr"
    by (simp add: example_defs)
  have nn: "(55::nat) \<noteq> nullptr"
    by (simp add: nullptr_def)
  obtain p s1 c1 where m: "IndexBuffer_Map ready_buffer live_context = Inr (p, s1, c1)"
    by (simp add: IndexBuffer_Map_def vmaMapMemory_if example_defs ready_buffer_def)
  obtain r s2 c2 where u: "IndexBuffer_Unmap mapped_buffer live_context = Inr (r, s2, c2)"
    by (simp add: IndexBuffer_Unmap_def example_defs)
  obtain s3 c3 where d: "IndexBuffer_destroy mapped_buffer live_context = Inr (s3, c3)"
    using destroy_returns [of mapped_buffer live_context] by (auto simp: example_defs)
  have mm: "m_is_mappable ready_buffer" "m_is_mappable mapped_buffer"
    by (simp_all add: ready_buffer_def mapped_buffer_def)
  from dev create_decides_mappable [of fresh_buffer fresh_context nullptr]
  have 1: "\<exists>ok s' c'. IndexBuffer_create nullptr fresh_buffer fresh_context = Inr (ok, s', c') \<and>
             m_is_mappable s'"
    by blast
  from dev nn create_decides_mappable [of fresh_buffer fresh_context 55]
  have 2: "\<exists>ok s' c'. IndexBuffer_create 55 fresh_buffer fresh_context = Inr (ok, s', c') \<and>
             \<not> m_is_mappable s'"
    by blast
  from m mm create_decides_mappable [of ready_buffer live_context nullptr True s1 c1 p]
  have 3: "\<exists>p s' c'. IndexBuffer_Map ready_buffer live_context = Inr (p, s', c') \<and> m_is_mappable s'"
    by blast
  from u mm create_decides_mappable [of mapped_buffer live_context nullptr r s2 c2 0]
  have 4: "\<exists>ok s' c'. IndexBuffer_Unmap mapped_buffer live_context = Inr (ok, s', c') \<and>
             m_is_mappable s'"
    by blast
  from d mm create_decides_mappable [of mapped_buffer live_context nullptr True s3 c3 0]
  have 5: "\<exists>s' c'. IndexBuffer_destroy mapped_buffer live_context = Inr (s', c') \<and> m_is_mappable s'"
    by blast
  from 1 2 3 4 5 show ?thesis by blast
qed

subsection \<open>Map\<close>

text \<open>
  Claim C6. \<^verbatim>\<open>Map\<close> on an object that is not mappable returns null, logs an error
  and changes nothing else, whatever the rest of the state. On a mappable object that
  passes the assertions and is not mapped, if the map call of the allocator fails,
  \<^verbatim>\<open>Map\<close> returns null, logs an error and leaves the object as it was, so not marked
  mapped. And every \<^verbatim>\<open>Map\<close> that returns null has left the object unchanged and has
  logged one error.
\<close>

theorem map_failure_leaves_state:
  "(\<not> m_is_mappable s \<longrightarrow>
      IndexBuffer_Map s c =
        Inr (nullptr, s, LOG_ERROR ''Not mappable, can only be updated via staging'' c)) \<and>
   (m_is_mappable s \<and> m_rhi_device s \<noteq> nullptr \<and> device c \<noteq> nullptr \<and>
    m_allocation s \<noteq> nullptr \<and> m_mapped s = nullptr \<and>
    \<not> fst (fst (vmaMapMemory (m_allocation s) (m_mapped s) c)) \<longrightarrow>
      IndexBuffer_Map s c =
        Inr (nullptr, s,
             LOG_ERROR ''Failed to map memory''
               (snd (vmaMapMemory (m_allocation s) (m_mapped s) c)))) \<and>
   (IndexBuffer_Map s c = Inr (nullptr, s', c') \<longrightarrow>
      s' = s \<and> (\<exists>msg. error_log c' = error_log c @ [msg]))"
proof (intro conjI impI)
  assume "\<not> m_is_mappable s"
  then show "IndexBuffer_Map s c =
      Inr (nullptr, s, LOG_ERROR ''Not mappable, can only be updated via staging'' c)"
    by (simp add: IndexBuffer_Map_def)
next
  assume "m_is_mappable s \<and> m_rhi_device s \<noteq> nullptr \<and> device c \<noteq> nullptr \<and>
    m_allocation s \<noteq> nullptr \<and> m_mapped s = nullptr \<and>
    \<not> fst (fst (vmaMapMemory (m_allocation s) (m_mapped s) c))"
  then show "IndexBuffer_Map s c =
      Inr (nullptr, s,
           LOG_ERROR ''Failed to map memory'' (snd (vmaMapMemory (m_allocation s) (m_mapped s) c)))"
    by (auto simp: IndexBuffer_Map_def vmaMapMemory_if Let_def split: if_splits)
next
  assume r: "IndexBuffer_Map s c = Inr (nullptr, s', c')"
  then show "s' = s"
    by (auto simp: IndexBuffer_Map_def vmaMapMemory_if Let_def nullptr_def split: if_splits)
  from r show "\<exists>msg. error_log c' = error_log c @ [msg]"
    by (auto simp: IndexBuffer_Map_def vmaMapMemory_if LOG_ERROR_def Let_def nullptr_def
        split: if_splits)
qed

theorem map_failure_leaves_state_witness:
  "IndexBuffer_Map staged_buffer live_context =
     Inr (nullptr, staged_buffer,
          LOG_ERROR ''Not mappable, can only be updated via staging'' live_context) \<and>
   IndexBuffer_Map ready_buffer failing_context =
     Inr (nullptr, ready_buffer,
          LOG_ERROR ''Failed to map memory''
            (snd (vmaMapMemory (m_allocation ready_buffer) (m_mapped ready_buffer) failing_context))) \<and>
   m_mapped ready_buffer = nullptr \<and>
   error_log (LOG_ERROR ''Failed to map memory''
            (snd (vmaMapMemory (m_allocation ready_buffer) (m_mapped ready_buffer) failing_context)))
     = error_log failing_context @ [''Failed to map memory'']"
proof -
  have a: "\<not> m_is_mappable staged_buffer"
    by (simp add: staged_buffer_def)
  have b: "m_is_mappable ready_buffer \<and> m_rhi_device ready_buffer \<noteq> nullptr \<and>
    device failing_context \<noteq> nullptr \<and> m_allocation ready_buffer \<noteq> nullptr \<and>
    m_mapped ready_buffer = nullptr \<and>
    \<not> fst (fst (vmaMapMemory (m_allocation ready_buffer) (m_mapped ready_buffer) failing_context))"
    by (simp add: ready_buffer_def failing_context_def vmaMapMemory_if nullptr_def)
  have c: "error_log (LOG_ERROR ''Failed to map memory''
            (snd (vmaMapMemory (m_allocation ready_buffer) (m_mapped ready_buffer) failing_context)))
     = error_log failing_context @ [''Failed to map memory'']"
    by (simp add: LOG_ERROR_def vmaMapMemory_if)
  from a b c map_failure_leaves_state [of staged_buffer live_context]
    map_failure_leaves_state [of ready_buffer failing_context]
  show ?thesis by blast
qed

subsection \<open>Unmap\<close>

text \<open>
  Claim C8. On a mappable object with persistent mapping and an allocation (the object
  being attached to a device, as the \<^verbatim>\<open>_create\<close> that made the allocation has
  asserted), \<^verbatim>\<open>Unmap\<close> returns, leaves the object as it is, so the mapped pointer
  is kept, and makes one device call: the flush of the allocation from offset 0 over
  \<^verbatim>\<open>m_object_size_gpu\<close> bytes; no unmap is issued. It returns true when the flush
  succeeded, and otherwise logs the flush failure and returns false.
\<close>

theorem unmap_persistent_flushes:
  assumes "m_is_mappable s" and "m_persistent_mapping s" and "m_allocation s \<noteq> nullptr"
    and "m_rhi_device s \<noteq> nullptr"
  shows "\<exists>ok c'. IndexBuffer_Unmap s c = Inr (ok, s, c') \<and>
           trace c' = trace c @ [FLUSH_ALLOCATION (m_allocation s) 0 (m_object_size_gpu s) ok] \<and>
           error_log c' =
             (if ok then error_log c else error_log c @ [''Failed to flush memory''])"
  using assms
  by (auto simp: IndexBuffer_Unmap_def vmaFlushAllocation_def LOG_ERROR_def Let_def)

theorem unmap_persistent_flushes_witness:
  "(\<exists>c'. IndexBuffer_Unmap persistent_buffer live_context = Inr (True, persistent_buffer, c') \<and>
      trace c' = [FLUSH_ALLOCATION 102 0 1024 True] \<and> error_log c' = []) \<and>
   (\<exists>c'. IndexBuffer_Unmap persistent_buffer failing_context = Inr (False, persistent_buffer, c') \<and>
      trace c' = [FLUSH_ALLOCATION 102 0 1024 False] \<and>
      error_log c' = [''Failed to flush memory''])"
proof -
  have h: "m_is_mappable persistent_buffer" "m_persistent_mapping persistent_buffer"
    "m_allocation persistent_buffer \<noteq> nullptr" "m_rhi_device persistent_buffer \<noteq> nullptr"
    by (simp_all add: persistent_buffer_def nullptr_def)
  have f: "m_allocation persistent_buffer = 102" "m_object_size_gpu persistent_buffer = 1024"
    "trace live_context = []" "error_log live_context = []"
    "trace failing_context = []" "error_log failing_context = []"
    by (simp_all add: persistent_buffer_def live_context_def failing_context_def)
  have v: "fst (projr (IndexBuffer_Unmap persistent_buffer live_context))"
    "\<not> fst (projr (IndexBuffer_Unmap persistent_buffer failing_context))"
    by (simp_all add: IndexBuffer_Unmap_def vmaFlushAllocation_def persistent_buffer_def
        live_context_def failing_context_def nullptr_def)
  from unmap_persistent_flushes [OF h, of live_context] v(1)
  have 1: "\<exists>c'. IndexBuffer_Unmap persistent_buffer live_context = Inr (True, persistent_buffer, c') \<and>
      trace c' = [FLUSH_ALLOCATION 102 0 1024 True] \<and> error_log c' = []"
    by (auto simp: f)
  from unmap_persistent_flushes [OF h, of failing_context] v(2)
  have 2: "\<exists>c'. IndexBuffer_Unmap persistent_buffer failing_context = Inr (False, persistent_buffer, c') \<and>
      trace c' = [FLUSH_ALLOCATION 102 0 1024 False] \<and>
      error_log c' = [''Failed to flush memory'']"
    by (auto simp: f)
  from 1 2 show ?thesis by blast
qed




subsection \<open>Map, called twice\<close>

text \<open>
  Claim C7, as stated, fails: two consecutive calls of \<^verbatim>\<open>Map\<close> on a mappable object
  need not return the same pointer, and the second call may invoke the map call of the
  allocator again. On the ready object, when the driver refuses the first mapping and
  grants the second, the first \<^verbatim>\<open>Map\<close> returns null and the second returns the
  address 104, after a second \<^verbatim>\<open>vmaMapMemory\<close>.
\<close>

theorem map_twice_counterexample:
  "m_is_mappable ready_buffer \<and>
   IndexBuffer_Map ready_buffer failing_context = Inr (nullptr, ready_buffer, after_failed_map) \<and>
   IndexBuffer_Map ready_buffer after_failed_map =
     Inr (104, ready_buffer\<lparr>m_mapped := 104\<rparr>, after_retried_map) \<and>
   nullptr \<noteq> (104 :: ptr) \<and>
   trace after_retried_map = [MAP_MEMORY_FAILED 102, MAP_MEMORY 102 104]"
  by (simp add: IndexBuffer_Map_def vmaMapMemory_if LOG_ERROR_def ready_buffer_def
      failing_context_def after_failed_map_def after_retried_map_def nullptr_def)

text \<open>
  Claim C7, amended. When a call of \<^verbatim>\<open>Map\<close> returns a pointer that is not null
  (which it does on a mappable object only), that pointer is now cached in
  \<^verbatim>\<open>m_mapped\<close>, and a \<^verbatim>\<open>Map\<close> that follows it directly returns the identical
  pointer and leaves the object and the context as they are: no device call is made, so
  the map call of the allocator is not invoked again.
\<close>

theorem map_twice_same_pointer:
  assumes "IndexBuffer_Map s c = Inr (p, s1, c1)" and "p \<noteq> nullptr"
  shows "m_is_mappable s \<and> m_mapped s1 = p \<and> IndexBuffer_Map s1 c1 = Inr (p, s1, c1)"
proof -
  from assms have m: "m_is_mappable s"
    by (auto simp: IndexBuffer_Map_def split: if_splits)
  from assms m have a: "m_rhi_device s \<noteq> nullptr" "device c \<noteq> nullptr" "m_allocation s \<noteq> nullptr"
    by (auto simp: IndexBuffer_Map_def split: if_splits)
  from assms m a have s1: "m_mapped s1 = p" "m_is_mappable s1" "m_rhi_device s1 = m_rhi_device s"
    "m_allocation s1 = m_allocation s" "device c1 = device c"
    by (auto simp: IndexBuffer_Map_def vmaMapMemory_if Let_def split: if_splits)
  from s1 a assms(2) have "IndexBuffer_Map s1 c1 = Inr (p, s1, c1)"
    by (simp add: IndexBuffer_Map_def)
  with m s1(1) show ?thesis by simp
qed

theorem map_twice_same_pointer_witness:
  "\<exists>p s1 c1. IndexBuffer_Map ready_buffer live_context = Inr (p, s1, c1) \<and> p \<noteq> nullptr \<and>
     m_mapped s1 = p \<and> IndexBuffer_Map s1 c1 = Inr (p, s1, c1)"
proof -
  obtain s1 c1 where m: "IndexBuffer_Map ready_buffer live_context = Inr (104, s1, c1)"
    by (simp add: IndexBuffer_Map_def vmaMapMemory_if ready_buffer_def live_context_def nullptr_def)
  have n: "(104 :: ptr) \<noteq> nullptr"
    by (simp add: nullptr_def)
  from map_twice_same_pointer [OF m n] m n show ?thesis by blast
qed

subsection \<open>Creation\<close>

text \<open>
  Claim C1 does not hold of the code. A staged \<^verbatim>\<open>_create\<close> (source data at 55) of
  the fresh object, with a driver that grants the staging buffer and refuses the
  destination buffer, returns false at the early return after the second creation. The
  staging buffer 104 is then still live with its allocation 105, and no call has
  destroyed it; the path that succeeds destroys the staging buffer after the copy.
\<close>

theorem create_destination_failure_leaks_staging:
  "IndexBuffer_create 55 fresh_buffer failing_context =
     Inr (False, fresh_buffer, after_failed_staged_create) \<and>
   allocations after_failed_staged_create 104 = Some 105 \<and>
   BUFFER_DESTROY 104 \<notin> set (trace after_failed_staged_create)"
  by (simp add: IndexBuffer_create_def IndexBuffer_destroy_def destroy_prims create_prims
      fresh_buffer_def failing_context_def after_failed_staged_create_def nullptr_def)






subsection \<open>The allocation assertion of Map\<close>










end
